theory Spec2Isabelle
  imports Main "HOL-Library.Word"
begin

section \<open>Data model of the message layer\<close>

text \<open>
  Modelled from the spec: the messages of \<^verbatim>\<open>x/dao/types\<close> are built from types of the
  SDK (\<^verbatim>\<open>sdk.AccAddress\<close>, \<^verbatim>\<open>sdk.ValAddress\<close>, \<^verbatim>\<open>sdk.Int\<close>, \<^verbatim>\<open>sdk.Dec\<close>, \<^verbatim>\<open>sdk.Coin\<close>,
  \<^verbatim>\<open>sdk.Error\<close>) whose declarations are not among the source files.

  \<^item> An address is a byte slice; \<^verbatim>\<open>Empty()\<close> holds of the slice of length zero (a nil
    slice included), \<^verbatim>\<open>Equals\<close> and \<^verbatim>\<open>bytes.Equal\<close> compare the bytes, and the
    conversion \<^verbatim>\<open>sdk.AccAddress(v)\<close> keeps the bytes.
  \<^item> \<^verbatim>\<open>sdk.Int\<close> is an arbitrary-precision integer, \<^verbatim>\<open>sdk.Dec\<close> an arbitrary-precision
    decimal of 18 places, held as the integer \<open>value * 10^18\<close>. The methods \<^verbatim>\<open>GT\<close>,
    \<^verbatim>\<open>LT\<close>, \<^verbatim>\<open>LTE\<close> compare the numbers. The model covers messages whose amounts
    hold a number; a message whose \<^verbatim>\<open>sdk.Int\<close> was never set is outside it.
  \<^item> An error has a kind and a codespace, and \<^verbatim>\<open>nil\<close> is success: \<open>sdk_Error option\<close>.
    Every error of these functions is built with \<^verbatim>\<open>DefaultCodespace\<close>, so the model
    keeps the kind only (and the code and text, for \<^verbatim>\<open>sdk.NewError\<close>).
\<close>

type_synonym bytes = "8 word list"

type_synonym AccAddress = bytes
type_synonym ValAddress = bytes

definition Empty :: "bytes \<Rightarrow> bool" where
  "Empty aa = (aa = [])"

definition Equals :: "bytes \<Rightarrow> bytes \<Rightarrow> bool" where
  "Equals aa aa2 = (if Empty aa \<and> Empty aa2 then True else aa = aa2)"

type_synonym sdk_Int = int

definition ZeroInt :: sdk_Int where
  "ZeroInt = 0"

definition Int_GT :: "sdk_Int \<Rightarrow> sdk_Int \<Rightarrow> bool" where
  "Int_GT i i2 = (i > i2)"

definition Int_LT :: "sdk_Int \<Rightarrow> sdk_Int \<Rightarrow> bool" where
  "Int_LT i i2 = (i < i2)"

definition Int_LTE :: "sdk_Int \<Rightarrow> sdk_Int \<Rightarrow> bool" where
  "Int_LTE i i2 = (i \<le> i2)"

datatype sdk_Dec = Dec (unscaled: int)

definition Precision :: nat where
  "Precision = 18"

definition ZeroDec :: sdk_Dec where
  "ZeroDec = Dec 0"

definition OneDec :: sdk_Dec where
  "OneDec = Dec (10 ^ Precision)"

definition Dec_GT :: "sdk_Dec \<Rightarrow> sdk_Dec \<Rightarrow> bool" where
  "Dec_GT d d2 = (unscaled d > unscaled d2)"

definition Dec_LT :: "sdk_Dec \<Rightarrow> sdk_Dec \<Rightarrow> bool" where
  "Dec_LT d d2 = (unscaled d < unscaled d2)"

record Coin =
  Denom :: string
  Amount :: sdk_Int

datatype CodeType = CodeInvalidInput

datatype sdk_Error =
    ErrNilDelegatorAddr
  | ErrNilValidatorAddr
  | ErrBadValidatorAddr
  | ErrBadDelegationAmount
  | ErrMinSelfDelegationInvalid
  | ErrSelfDelegationBelowMinimum
  | ErrBadSharesAmount
  | NewError CodeType string

subsection \<open>MsgDelegate\<close>

record MsgDelegate =
  DelegatorAddress :: AccAddress
  ValidatorAddress :: ValAddress
  Amount :: Coin

definition MsgDelegate_ValidateBasic :: "MsgDelegate \<Rightarrow> sdk_Error option" where
  "MsgDelegate_ValidateBasic msg =
    (if Empty (MsgDelegate.DelegatorAddress msg) then Some ErrNilDelegatorAddr
     else if Empty (MsgDelegate.ValidatorAddress msg) then Some ErrNilValidatorAddr
     else if Int_LTE (Coin.Amount (MsgDelegate.Amount msg)) ZeroInt
       then Some ErrBadDelegationAmount
     else None)"

subsection \<open>MsgIndexDelegate\<close>

record ValidatorPortion =
  ValidatorAddress :: ValAddress
  Amount :: Coin

record MsgIndexDelegate =
  DelegatorAddress :: AccAddress
  Portions :: "ValidatorPortion list"
  Denomination :: string

text \<open>The loop \<^verbatim>\<open>for _, portion := range msg.Portions\<close>: the first portion that fails
  a check returns from the function.\<close>

fun check_portions :: "ValidatorPortion list \<Rightarrow> sdk_Error option" where
  "check_portions [] = None"
| "check_portions (portion # rest) =
    (if Empty (ValidatorPortion.ValidatorAddress portion) then Some ErrNilValidatorAddr
     else if Int_LTE (Coin.Amount (ValidatorPortion.Amount portion)) ZeroInt
       then Some ErrBadDelegationAmount
     else check_portions rest)"

definition MsgIndexDelegate_ValidateBasic :: "MsgIndexDelegate \<Rightarrow> sdk_Error option" where
  "MsgIndexDelegate_ValidateBasic msg =
    (if Empty (MsgIndexDelegate.DelegatorAddress msg) then Some ErrNilDelegatorAddr
     else check_portions (Portions msg))"

subsection \<open>MsgBeginRedelegate\<close>

record MsgBeginRedelegate =
  DelegatorAddress :: AccAddress
  ValidatorSrcAddress :: ValAddress
  ValidatorDstAddress :: ValAddress
  Amount :: Coin

definition MsgBeginRedelegate_ValidateBasic :: "MsgBeginRedelegate \<Rightarrow> sdk_Error option" where
  "MsgBeginRedelegate_ValidateBasic msg =
    (if Empty (MsgBeginRedelegate.DelegatorAddress msg) then Some ErrNilDelegatorAddr
     else if Empty (ValidatorSrcAddress msg) then Some ErrNilValidatorAddr
     else if Empty (ValidatorDstAddress msg) then Some ErrNilValidatorAddr
     else if Int_LTE (Coin.Amount (MsgBeginRedelegate.Amount msg)) ZeroInt
       then Some ErrBadSharesAmount
     else None)"

subsection \<open>MsgUndelegate\<close>

record MsgUndelegate =
  DelegatorAddress :: AccAddress
  ValidatorAddress :: ValAddress
  Amount :: Coin

definition MsgUndelegate_ValidateBasic :: "MsgUndelegate \<Rightarrow> sdk_Error option" where
  "MsgUndelegate_ValidateBasic msg =
    (if Empty (MsgUndelegate.DelegatorAddress msg) then Some ErrNilDelegatorAddr
     else if Empty (MsgUndelegate.ValidatorAddress msg) then Some ErrNilValidatorAddr
     else if Int_LTE (Coin.Amount (MsgUndelegate.Amount msg)) ZeroInt
       then Some ErrBadSharesAmount
     else None)"

subsection \<open>MsgCreateValidator\<close>

text \<open>
  Modelled from the spec: the structs \<^verbatim>\<open>Description\<close> and \<^verbatim>\<open>CommissionMsg\<close> of the
  package are declared outside the source files. A description holds the text fields
  moniker, identity, website and details; a commission schedule holds rate, max rate and
  max change rate. The source compares both with their zero values, \<^verbatim>\<open>Description{}\<close>
  and \<^verbatim>\<open>CommissionMsg{}\<close>. The zero value of a string is the empty string. The zero value
  of an \<^verbatim>\<open>sdk.Dec\<close> holds no number at all (it differs from the decimal 0), so a
  field of \<^verbatim>\<open>CommissionMsg\<close> is \<open>None\<close> when it was never set.
\<close>

record Description =
  Moniker :: string
  Identity :: string
  Website :: string
  Details :: string

definition Description_zero :: Description where
  "Description_zero = \<lparr>Moniker = [], Identity = [], Website = [], Details = []\<rparr>"

record CommissionMsg =
  Rate :: "sdk_Dec option"
  MaxRate :: "sdk_Dec option"
  MaxChangeRate :: "sdk_Dec option"

definition CommissionMsg_zero :: CommissionMsg where
  "CommissionMsg_zero = \<lparr>Rate = None, MaxRate = None, MaxChangeRate = None\<rparr>"

text \<open>\<^verbatim>\<open>crypto.PubKey\<close> is an interface value: \<open>None\<close> is \<^verbatim>\<open>nil\<close>, \<open>Some bz\<close> a key
  with the raw bytes \<open>bz\<close>.\<close>

type_synonym PubKey = "bytes option"

record MsgCreateValidator =
  Description :: Description
  Commission :: CommissionMsg
  MinSelfDelegation :: sdk_Int
  DelegatorAddress :: AccAddress
  ValidatorAddress :: ValAddress
  PubKey :: PubKey
  Value :: Coin
  ShareTokenDenom :: string

record msgCreateValidatorJSON =
  Description :: Description
  Commission :: CommissionMsg
  MinSelfDelegation :: sdk_Int
  DelegatorAddress :: AccAddress
  ValidatorAddress :: ValAddress
  PubKey :: string
  Value :: Coin
  ShareTokenDenom :: string

definition NewMsgCreateValidator ::
  "ValAddress \<Rightarrow> PubKey \<Rightarrow> Coin \<Rightarrow> Description \<Rightarrow> CommissionMsg \<Rightarrow> sdk_Int \<Rightarrow> string
    \<Rightarrow> MsgCreateValidator" where
  "NewMsgCreateValidator valAddr pubKey selfDelegation description commission
      minSelfDelegation shareTokenDenom =
    \<lparr>MsgCreateValidator.Description = description,
     MsgCreateValidator.Commission = commission,
     MsgCreateValidator.MinSelfDelegation = minSelfDelegation,
     MsgCreateValidator.DelegatorAddress = valAddr,
     MsgCreateValidator.ValidatorAddress = valAddr,
     MsgCreateValidator.PubKey = pubKey,
     MsgCreateValidator.Value = selfDelegation,
     MsgCreateValidator.ShareTokenDenom = shareTokenDenom\<rparr>"

text \<open>\<^verbatim>\<open>GetSigners\<close>: the delegator first; the validator is appended when
  \<^verbatim>\<open>bytes.Equal\<close> finds the two addresses different.\<close>

definition bytes_Equal :: "bytes \<Rightarrow> bytes \<Rightarrow> bool" where
  "bytes_Equal a b = (a = b)"

definition MsgCreateValidator_GetSigners :: "MsgCreateValidator \<Rightarrow> AccAddress list" where
  "MsgCreateValidator_GetSigners msg =
    (let addrs = [MsgCreateValidator.DelegatorAddress msg] in
     if \<not> bytes_Equal (MsgCreateValidator.DelegatorAddress msg)
                        (MsgCreateValidator.ValidatorAddress msg)
     then addrs @ [MsgCreateValidator.ValidatorAddress msg]
     else addrs)"

definition MsgCreateValidator_ValidateBasic :: "MsgCreateValidator \<Rightarrow> sdk_Error option" where
  "MsgCreateValidator_ValidateBasic msg =
    (if Empty (MsgCreateValidator.DelegatorAddress msg) then Some ErrNilDelegatorAddr
     else if Empty (MsgCreateValidator.ValidatorAddress msg) then Some ErrNilValidatorAddr
     else if \<not> Equals (MsgCreateValidator.ValidatorAddress msg)
                        (MsgCreateValidator.DelegatorAddress msg)
       then Some ErrBadValidatorAddr
     else if Int_LTE (Coin.Amount (MsgCreateValidator.Value msg)) ZeroInt
       then Some ErrBadDelegationAmount
     else if MsgCreateValidator.Description msg = Description_zero
       then Some (NewError CodeInvalidInput ''description must be included'')
     else if MsgCreateValidator.Commission msg = CommissionMsg_zero
       then Some (NewError CodeInvalidInput ''commission must be included'')
     else if MsgCreateValidator.ShareTokenDenom msg = []
       then Some (NewError CodeInvalidInput ''share token denomination must be included.'')
     else if \<not> Int_GT (MsgCreateValidator.MinSelfDelegation msg) ZeroInt
       then Some ErrMinSelfDelegationInvalid
     else if Int_LT (Coin.Amount (MsgCreateValidator.Value msg))
                    (MsgCreateValidator.MinSelfDelegation msg)
       then Some ErrSelfDelegationBelowMinimum
     else None)"

subsection \<open>MsgEditValidator\<close>

text \<open>\<^verbatim>\<open>CommissionRate\<close> and \<^verbatim>\<open>MinSelfDelegation\<close> are pointers: \<open>None\<close> is the nil pointer
  (no update), \<open>Some x\<close> points to the new value.\<close>

record MsgEditValidator =
  Description :: Description
  ValidatorAddress :: ValAddress
  CommissionRate :: "sdk_Dec option"
  MinSelfDelegation :: "sdk_Int option"

definition NewMsgEditValidator ::
  "ValAddress \<Rightarrow> Description \<Rightarrow> sdk_Dec option \<Rightarrow> sdk_Int option \<Rightarrow> MsgEditValidator" where
  "NewMsgEditValidator valAddr description newRate newMinSelfDelegation =
    \<lparr>MsgEditValidator.Description = description,
     MsgEditValidator.ValidatorAddress = valAddr,
     MsgEditValidator.CommissionRate = newRate,
     MsgEditValidator.MinSelfDelegation = newMinSelfDelegation\<rparr>"

definition MsgEditValidator_ValidateBasic :: "MsgEditValidator \<Rightarrow> sdk_Error option" where
  "MsgEditValidator_ValidateBasic msg =
    (if Empty (MsgEditValidator.ValidatorAddress msg)
       then Some (NewError CodeInvalidInput ''nil validator address'')
     else if MsgEditValidator.Description msg = Description_zero
       then Some (NewError CodeInvalidInput
                   ''transaction must include some information to modify'')
     else if (case MsgEditValidator.MinSelfDelegation msg of
                None \<Rightarrow> False
              | Some m \<Rightarrow> \<not> Int_GT m ZeroInt)
       then Some ErrMinSelfDelegationInvalid
     else (case MsgEditValidator.CommissionRate msg of
             None \<Rightarrow> None
           | Some r \<Rightarrow>
               if Dec_GT r OneDec \<or> Dec_LT r ZeroDec
               then Some (NewError CodeInvalidInput
                           ''commission rate must be between 0 and 1, inclusive'')
               else None))"

subsection \<open>Governance content\<close>

text \<open>\<^verbatim>\<open>Content\<close> is an interface; a value of it is modelled by what its four methods
  return. \<^verbatim>\<open>sdk.CodespaceType\<close> is a string type.\<close>

type_synonym CodespaceType = string

record Content =
  ProposalRoute :: string
  ProposalType :: string
  ValidateBasic :: "sdk_Error option"
  String :: string

definition ValidateAbstract :: "CodespaceType \<Rightarrow> Content \<Rightarrow> sdk_Error option" where
  "ValidateAbstract codespace c = None"

subsection \<open>JSON transcoding of MsgCreateValidator\<close>








section \<open>The staking ledger\<close>

text \<open>
  Modelled from the spec: the staking ledger (\<open>ValidatorRecord\<close>, \<open>DelegationRecord\<close>,
  \<open>ApplyDelegate\<close>, \<open>ApplyIndexDelegate\<close>) is not among the source files. The model keeps
  what the spec says of delegation. A validator record holds its bonded-token total, the
  shares it has issued (a decimal of 18 places) and whether it may receive delegations.
  A delegation record maps (delegator, validator) to the shares owned.

  \<open>ApplyDelegate\<close> rejects a non-positive amount (BadDelegationAmount), fails if the
  validator is absent or not eligible, and issues \<open>amount / rate\<close> shares, where the rate
  is the validator's tokens per share (one share per token while no share exists),
  rounded down at the precision of a share; a computed share amount that is not positive
  is rejected. The spec names no error kind for the last three failures; the model
  calls them \<open>ValidatorNotFound\<close>, \<open>ValidatorNotEligible\<close> and \<open>NoSharesIssued\<close>.

  \<open>ApplyIndexDelegate\<close> applies the portions in order as one transaction: the writes of
  the portions go to a working copy of the state, which replaces the state only when every
  portion has succeeded.
\<close>

datatype apply_Error =
    BadDelegationAmount
  | ValidatorNotFound
  | ValidatorNotEligible
  | NoSharesIssued

record ValidatorRecord =
  bondedAmount :: sdk_Int
  totalShares :: sdk_Dec
  eligible :: bool

record Ledger =
  validators :: "ValAddress \<rightharpoonup> ValidatorRecord"
  delegations :: "(AccAddress \<times> ValAddress) \<rightharpoonup> sdk_Dec"

definition sharesOwned :: "Ledger \<Rightarrow> AccAddress \<Rightarrow> ValAddress \<Rightarrow> int" where
  "sharesOwned st del val =
    (case delegations st (del, val) of None \<Rightarrow> 0 | Some s \<Rightarrow> unscaled s)"

definition sharesIssued :: "ValidatorRecord \<Rightarrow> sdk_Int \<Rightarrow> int" where
  "sharesIssued v amount =
    (if unscaled (totalShares v) = 0 then amount * 10 ^ Precision
     else if bondedAmount v \<le> 0 then 0
     else (amount * unscaled (totalShares v)) div bondedAmount v)"

definition ApplyDelegate ::
  "Ledger \<Rightarrow> AccAddress \<Rightarrow> ValAddress \<Rightarrow> sdk_Int \<Rightarrow> apply_Error + Ledger" where
  "ApplyDelegate st del val amount =
    (if amount \<le> 0 then Inl BadDelegationAmount
     else case validators st val of
       None \<Rightarrow> Inl ValidatorNotFound
     | Some v \<Rightarrow>
        if \<not> eligible v then Inl ValidatorNotEligible
        else if sharesIssued v amount \<le> 0 then Inl NoSharesIssued
        else Inr (st
          \<lparr>validators := (validators st)(val \<mapsto> v
              \<lparr>bondedAmount := bondedAmount v + amount,
               totalShares := Dec (unscaled (totalShares v) + sharesIssued v amount)\<rparr>),
           delegations := (delegations st)((del, val) \<mapsto>
               Dec (sharesOwned st del val + sharesIssued v amount))\<rparr>))"

fun applyPortions ::
  "Ledger \<Rightarrow> AccAddress \<Rightarrow> ValidatorPortion list \<Rightarrow> apply_Error + Ledger" where
  "applyPortions st del [] = Inr st"
| "applyPortions st del (p # ps) =
    (case ApplyDelegate st del (ValidatorPortion.ValidatorAddress p)
            (Coin.Amount (ValidatorPortion.Amount p)) of
       Inl e \<Rightarrow> Inl e
     | Inr st' \<Rightarrow> applyPortions st' del ps)"

definition ApplyIndexDelegate :: "Ledger \<Rightarrow> MsgIndexDelegate \<Rightarrow> Ledger \<times> apply_Error option" where
  "ApplyIndexDelegate st msg =
    (case applyPortions st (MsgIndexDelegate.DelegatorAddress msg) (Portions msg) of
       Inl e \<Rightarrow> (st, Some e)
     | Inr st' \<Rightarrow> (st', None))"

section \<open>Messages used as concrete inputs\<close>

definition stake :: "int \<Rightarrow> Coin" where
  "stake n = \<lparr>Denom = ''stake'', Coin.Amount = n\<rparr>"

definition addr1 :: bytes where
  "addr1 = [1, 2, 3]"

definition addr2 :: bytes where
  "addr2 = [4, 5]"

definition some_description :: Description where
  "some_description = \<lparr>Moniker = ''node'', Identity = [], Website = [], Details = []\<rparr>"

definition some_commission :: CommissionMsg where
  "some_commission = \<lparr>Rate = Some (Dec (10 ^ 17)), MaxRate = Some (Dec (2 * 10 ^ 17)),
                       MaxChangeRate = Some (Dec (10 ^ 16))\<rparr>"

definition create_msg :: "int \<Rightarrow> int \<Rightarrow> MsgCreateValidator" where
  "create_msg v m =
    NewMsgCreateValidator addr1 (Some [7, 7]) (stake v) some_description some_commission m
      ''share''"

definition edit_rate_only :: MsgEditValidator where
  "edit_rate_only = NewMsgEditValidator addr1 Description_zero (Some (Dec (5 * 10 ^ 17))) None"

definition edit_zero_min :: MsgEditValidator where
  "edit_zero_min = NewMsgEditValidator addr1 some_description None (Some 0)"

definition edit_ok :: MsgEditValidator where
  "edit_ok = NewMsgEditValidator addr1 some_description (Some (Dec (5 * 10 ^ 17))) (Some 1)"

definition portion :: "bytes \<Rightarrow> int \<Rightarrow> ValidatorPortion" where
  "portion v n = \<lparr>ValidatorPortion.ValidatorAddress = v, ValidatorPortion.Amount = stake n\<rparr>"

definition index_msg :: "bytes \<Rightarrow> ValidatorPortion list \<Rightarrow> MsgIndexDelegate" where
  "index_msg d ps = \<lparr>MsgIndexDelegate.DelegatorAddress = d, Portions = ps,
                     Denomination = ''stake''\<rparr>"

definition delegate_msg :: "int \<Rightarrow> MsgDelegate" where
  "delegate_msg n = \<lparr>MsgDelegate.DelegatorAddress = addr1,
                     MsgDelegate.ValidatorAddress = addr2, MsgDelegate.Amount = stake n\<rparr>"

definition undelegate_msg :: "int \<Rightarrow> MsgUndelegate" where
  "undelegate_msg n = \<lparr>MsgUndelegate.DelegatorAddress = addr1,
                       MsgUndelegate.ValidatorAddress = addr2, MsgUndelegate.Amount = stake n\<rparr>"

definition redelegate_msg :: "bytes \<Rightarrow> bytes \<Rightarrow> int \<Rightarrow> MsgBeginRedelegate" where
  "redelegate_msg src dst n = \<lparr>MsgBeginRedelegate.DelegatorAddress = addr1,
      ValidatorSrcAddress = src, ValidatorDstAddress = dst,
      MsgBeginRedelegate.Amount = stake n\<rparr>"

definition some_content :: Content where
  "some_content = \<lparr>ProposalRoute = ''dao'', ProposalType = ''Text'',
                     ValidateBasic = Some (NewError CodeInvalidInput ''title too long''),
                     String = replicate 6000 CHR ''x''\<rparr>"












text \<open>A ledger with two validators that accept delegations; the delegator \<open>addr1\<close>
  owns 100 shares of the first.\<close>

definition two_validators :: Ledger where
  "two_validators =
    \<lparr>validators =
       [addr1 \<mapsto> \<lparr>bondedAmount = 100, totalShares = Dec (100 * 10 ^ 18), eligible = True\<rparr>,
        addr2 \<mapsto> \<lparr>bondedAmount = 30, totalShares = Dec (20 * 10 ^ 18), eligible = True\<rparr>],
     delegations = [(addr1, addr1) \<mapsto> Dec (100 * 10 ^ 18)]\<rparr>"

section \<open>Properties of the message layer\<close>

subsection \<open>Evaluation rules\<close>

lemmas sdk_defs =
  Empty_def Equals_def bytes_Equal_def ZeroInt_def Int_GT_def Int_LT_def Int_LTE_def
  ZeroDec_def OneDec_def Precision_def Dec_GT_def Dec_LT_def
  Description_zero_def CommissionMsg_zero_def

text \<open>The loop over the portions, read at its first failing portion: the portions
  before it pass both checks and the ones after it are never looked at.\<close>

lemma check_portions_first_failure:
  assumes "\<forall>q \<in> set pre. ValidatorPortion.ValidatorAddress q \<noteq> []
                         \<and> 0 < Coin.Amount (ValidatorPortion.Amount q)"
  shows "check_portions (pre @ p # rest) =
          (if ValidatorPortion.ValidatorAddress p = [] then Some ErrNilValidatorAddr
           else if Coin.Amount (ValidatorPortion.Amount p) \<le> 0
             then Some ErrBadDelegationAmount
           else check_portions rest)"
  using assms by (induction pre) (simp_all add: sdk_defs)

lemma check_portions_all_pass:
  assumes "\<forall>q \<in> set ps. ValidatorPortion.ValidatorAddress q \<noteq> []
                        \<and> 0 < Coin.Amount (ValidatorPortion.Amount q)"
  shows "check_portions ps = None"
  using assms by (induction ps) (simp_all add: sdk_defs)

lemma check_portions_error_kind:
  "check_portions ps = Some e \<Longrightarrow> e = ErrNilValidatorAddr \<or> e = ErrBadDelegationAmount"
  by (induction ps) (auto split: if_splits)

lemmas input_defs =
  stake_def addr1_def addr2_def some_description_def some_commission_def create_msg_def
  NewMsgCreateValidator_def NewMsgEditValidator_def edit_rate_only_def edit_zero_min_def
  edit_ok_def portion_def index_msg_def delegate_msg_def undelegate_msg_def
  redelegate_msg_def


subsection \<open>Signers of MsgCreateValidator\<close>

text \<open>
  Claim C6. \<^verbatim>\<open>MsgCreateValidator.GetSigners\<close> returns the delegator address first and
  appends the validator address exactly when its bytes differ from the delegator's: the
  result has one element when the two are equal and two otherwise, and never holds the
  same address twice.
\<close>

theorem MsgCreateValidator_GetSigners_dedup:
  "MsgCreateValidator_GetSigners msg =
     (if MsgCreateValidator.ValidatorAddress msg = MsgCreateValidator.DelegatorAddress msg
      then [MsgCreateValidator.DelegatorAddress msg]
      else [MsgCreateValidator.DelegatorAddress msg, MsgCreateValidator.ValidatorAddress msg])
   \<and> hd (MsgCreateValidator_GetSigners msg) = MsgCreateValidator.DelegatorAddress msg
   \<and> length (MsgCreateValidator_GetSigners msg) =
       (if MsgCreateValidator.ValidatorAddress msg = MsgCreateValidator.DelegatorAddress msg
        then 1 else 2)
   \<and> distinct (MsgCreateValidator_GetSigners msg)"
  by (auto simp: MsgCreateValidator_GetSigners_def bytes_Equal_def Let_def)

theorem MsgCreateValidator_GetSigners_dedup_witness:
  "MsgCreateValidator_GetSigners (create_msg 100 50) = [addr1]
   \<and> MsgCreateValidator_GetSigners
        ((create_msg 100 50)\<lparr>MsgCreateValidator.ValidatorAddress := addr2\<rparr>) = [addr1, addr2]"
  using MsgCreateValidator_GetSigners_dedup [of "create_msg 100 50"]
    MsgCreateValidator_GetSigners_dedup
      [of "(create_msg 100 50)\<lparr>MsgCreateValidator.ValidatorAddress := addr2\<rparr>"]
  by (simp add: input_defs)

subsection \<open>Stateless validation of MsgCreateValidator\<close>

text \<open>
  Claim C3. \<^verbatim>\<open>MsgCreateValidator.ValidateBasic\<close> returns success if and only if the
  delegator and validator addresses are non-empty, the validator address equals the
  delegator address, the value is strictly positive, description and commission are not
  their zero values, the share-token denomination is non-empty, the minimum
  self-delegation is strictly positive and the value is at least the minimum
  self-delegation. A message that passes the earlier checks with value 100 and minimum
  self-delegation 150 fails with SelfDelegationBelowMinimum.
\<close>

theorem MsgCreateValidator_ValidateBasic_iff:
  "(MsgCreateValidator_ValidateBasic msg = None \<longleftrightarrow>
      MsgCreateValidator.DelegatorAddress msg \<noteq> []
    \<and> MsgCreateValidator.ValidatorAddress msg \<noteq> []
    \<and> MsgCreateValidator.ValidatorAddress msg = MsgCreateValidator.DelegatorAddress msg
    \<and> 0 < Coin.Amount (MsgCreateValidator.Value msg)
    \<and> MsgCreateValidator.Description msg \<noteq> Description_zero
    \<and> MsgCreateValidator.Commission msg \<noteq> CommissionMsg_zero
    \<and> MsgCreateValidator.ShareTokenDenom msg \<noteq> []
    \<and> 0 < MsgCreateValidator.MinSelfDelegation msg
    \<and> MsgCreateValidator.MinSelfDelegation msg \<le> Coin.Amount (MsgCreateValidator.Value msg))
   \<and> (MsgCreateValidator.DelegatorAddress msg \<noteq> []
      \<and> MsgCreateValidator.ValidatorAddress msg = MsgCreateValidator.DelegatorAddress msg
      \<and> MsgCreateValidator.Description msg \<noteq> Description_zero
      \<and> MsgCreateValidator.Commission msg \<noteq> CommissionMsg_zero
      \<and> MsgCreateValidator.ShareTokenDenom msg \<noteq> []
      \<and> Coin.Amount (MsgCreateValidator.Value msg) = 100
      \<and> MsgCreateValidator.MinSelfDelegation msg = 150
     \<longrightarrow> MsgCreateValidator_ValidateBasic msg = Some ErrSelfDelegationBelowMinimum)"
  by (auto simp: MsgCreateValidator_ValidateBasic_def Empty_def Equals_def ZeroInt_def
      Int_GT_def Int_LT_def Int_LTE_def)

theorem MsgCreateValidator_ValidateBasic_iff_witness:
  "MsgCreateValidator_ValidateBasic (create_msg 100 150) = Some ErrSelfDelegationBelowMinimum
   \<and> MsgCreateValidator_ValidateBasic (create_msg 100 50) = None"
  using MsgCreateValidator_ValidateBasic_iff [of "create_msg 100 150"]
    MsgCreateValidator_ValidateBasic_iff [of "create_msg 100 50"]
  by (simp add: input_defs sdk_defs)

subsection \<open>Stateless validation of MsgEditValidator\<close>

text \<open>
  Claim C1, as the code has it. \<^verbatim>\<open>MsgEditValidator.ValidateBasic\<close> accepts a message
  whenever the validator address is non-empty, the description is not the zero value,
  the minimum self-delegation is absent or strictly positive, and the commission rate is
  absent or within [0, 1].
\<close>

theorem MsgEditValidator_ValidateBasic_accepts:
  assumes "MsgEditValidator.ValidatorAddress msg \<noteq> []"
    and "MsgEditValidator.Description msg \<noteq> Description_zero"
    and "case MsgEditValidator.MinSelfDelegation msg of None \<Rightarrow> True | Some m \<Rightarrow> 0 < m"
    and "case CommissionRate msg of
           None \<Rightarrow> True
         | Some r \<Rightarrow> 0 \<le> unscaled r \<and> unscaled r \<le> 10 ^ 18"
  shows "MsgEditValidator_ValidateBasic msg = None"
  using assms
  by (auto simp: MsgEditValidator_ValidateBasic_def sdk_defs split: option.splits)

theorem MsgEditValidator_ValidateBasic_accepts_witness:
  "MsgEditValidator.ValidatorAddress edit_ok \<noteq> []
   \<and> MsgEditValidator.Description edit_ok \<noteq> Description_zero
   \<and> MsgEditValidator.MinSelfDelegation edit_ok = Some 1
   \<and> CommissionRate edit_ok = Some (Dec (5 * 10 ^ 17))
   \<and> MsgEditValidator_ValidateBasic edit_ok = None"
  using MsgEditValidator_ValidateBasic_accepts [of edit_ok]
  by (simp add: input_defs sdk_defs)

text \<open>
  Claim C1, as stated, fails on the code. A message with a non-empty validator address,
  the zero description and the commission rate 0.5 is rejected, since the function
  tests the description alone for "some information to modify". A message whose
  description changed is rejected as well when its minimum self-delegation is present
  and zero.
\<close>

theorem MsgEditValidator_ValidateBasic_counterexample:
  "MsgEditValidator.ValidatorAddress edit_rate_only \<noteq> []
   \<and> MsgEditValidator.Description edit_rate_only = Description_zero
   \<and> CommissionRate edit_rate_only = Some (Dec (5 * 10 ^ 17))
   \<and> \<not> Dec_GT (Dec (5 * 10 ^ 17)) OneDec \<and> \<not> Dec_LT (Dec (5 * 10 ^ 17)) ZeroDec
   \<and> MsgEditValidator_ValidateBasic edit_rate_only =
       Some (NewError CodeInvalidInput ''transaction must include some information to modify'')
   \<and> MsgEditValidator.ValidatorAddress edit_zero_min \<noteq> []
   \<and> MsgEditValidator.Description edit_zero_min \<noteq> Description_zero
   \<and> MsgEditValidator.MinSelfDelegation edit_zero_min = Some 0
   \<and> MsgEditValidator_ValidateBasic edit_zero_min = Some ErrMinSelfDelegationInvalid"
  by (simp add: MsgEditValidator_ValidateBasic_def input_defs sdk_defs)

subsection \<open>Stateless validation of MsgIndexDelegate\<close>

text \<open>
  Claim C4. \<^verbatim>\<open>MsgIndexDelegate.ValidateBasic\<close> rejects an empty delegator address with
  NilDelegatorAddr before looking at any portion. Otherwise the first portion that fails
  a check decides the result, whatever the portions after it are: NilValidatorAddr if
  its validator address is empty, BadDelegationAmount if the address is non-empty and
  the amount is not positive. If every portion passes, the message is accepted.
\<close>

theorem MsgIndexDelegate_ValidateBasic_first_failure:
  "(MsgIndexDelegate.DelegatorAddress msg = []
     \<longrightarrow> MsgIndexDelegate_ValidateBasic msg = Some ErrNilDelegatorAddr)
   \<and> (MsgIndexDelegate.DelegatorAddress msg \<noteq> [] \<and> Portions msg = pre @ p # rest
      \<and> (\<forall>q \<in> set pre. ValidatorPortion.ValidatorAddress q \<noteq> []
                         \<and> 0 < Coin.Amount (ValidatorPortion.Amount q))
      \<and> ValidatorPortion.ValidatorAddress p = []
     \<longrightarrow> MsgIndexDelegate_ValidateBasic msg = Some ErrNilValidatorAddr)
   \<and> (MsgIndexDelegate.DelegatorAddress msg \<noteq> [] \<and> Portions msg = pre @ p # rest
      \<and> (\<forall>q \<in> set pre. ValidatorPortion.ValidatorAddress q \<noteq> []
                         \<and> 0 < Coin.Amount (ValidatorPortion.Amount q))
      \<and> ValidatorPortion.ValidatorAddress p \<noteq> []
      \<and> Coin.Amount (ValidatorPortion.Amount p) \<le> 0
     \<longrightarrow> MsgIndexDelegate_ValidateBasic msg = Some ErrBadDelegationAmount)
   \<and> (MsgIndexDelegate.DelegatorAddress msg \<noteq> []
      \<and> (\<forall>q \<in> set (Portions msg). ValidatorPortion.ValidatorAddress q \<noteq> []
                         \<and> 0 < Coin.Amount (ValidatorPortion.Amount q))
     \<longrightarrow> MsgIndexDelegate_ValidateBasic msg = None)"
  using check_portions_first_failure [of pre p rest]
    check_portions_all_pass [of "Portions msg"]
  by (simp add: MsgIndexDelegate_ValidateBasic_def Empty_def)

theorem MsgIndexDelegate_ValidateBasic_first_failure_witness:
  "MsgIndexDelegate_ValidateBasic (index_msg [] [portion [] 0]) = Some ErrNilDelegatorAddr
   \<and> MsgIndexDelegate_ValidateBasic
       (index_msg addr1 [portion addr1 10, portion [] (- 5), portion addr2 (- 1)])
       = Some ErrNilValidatorAddr
   \<and> MsgIndexDelegate_ValidateBasic
       (index_msg addr1 [portion addr1 10, portion addr2 0, portion [] 1])
       = Some ErrBadDelegationAmount
   \<and> MsgIndexDelegate_ValidateBasic (index_msg addr1 [portion addr1 10, portion addr2 1])
       = None"
  using
    MsgIndexDelegate_ValidateBasic_first_failure
      [of "index_msg [] [portion [] 0]" "[]" "portion [] 0" "[]"]
    MsgIndexDelegate_ValidateBasic_first_failure
      [of "index_msg addr1 [portion addr1 10, portion [] (- 5), portion addr2 (- 1)]"
          "[portion addr1 10]" "portion [] (- 5)" "[portion addr2 (- 1)]"]
    MsgIndexDelegate_ValidateBasic_first_failure
      [of "index_msg addr1 [portion addr1 10, portion addr2 0, portion [] 1]"
          "[portion addr1 10]" "portion addr2 0" "[portion [] 1]"]
    MsgIndexDelegate_ValidateBasic_first_failure
      [of "index_msg addr1 [portion addr1 10, portion addr2 1]" "[]" "portion addr1 10" "[]"]
  by (simp add: input_defs)

text \<open>
  Claim C8. \<^verbatim>\<open>MsgIndexDelegate.ValidateBasic\<close> asks for no minimum number of portions:
  a message with a non-empty delegator address and no portion at all is accepted.
\<close>

theorem MsgIndexDelegate_ValidateBasic_no_portions:
  assumes "MsgIndexDelegate.DelegatorAddress msg \<noteq> []"
    and "Portions msg = []"
  shows "MsgIndexDelegate_ValidateBasic msg = None"
  using assms by (simp add: MsgIndexDelegate_ValidateBasic_def Empty_def)

theorem MsgIndexDelegate_ValidateBasic_no_portions_witness:
  "MsgIndexDelegate.DelegatorAddress (index_msg addr1 []) \<noteq> []
   \<and> Portions (index_msg addr1 []) = []
   \<and> MsgIndexDelegate_ValidateBasic (index_msg addr1 []) = None"
  using MsgIndexDelegate_ValidateBasic_no_portions [of "index_msg addr1 []"]
  by (simp add: input_defs)

subsection \<open>The error for an amount that is not positive\<close>

text \<open>
  Claim C9. When the address checks pass and the amount is zero or negative,
  \<^verbatim>\<open>MsgUndelegate.ValidateBasic\<close> and \<^verbatim>\<open>MsgBeginRedelegate.ValidateBasic\<close> return
  BadSharesAmount, whereas \<^verbatim>\<open>MsgDelegate.ValidateBasic\<close> and
  \<^verbatim>\<open>MsgIndexDelegate.ValidateBasic\<close> (at its first failing portion) return
  BadDelegationAmount. The two families never return each other's error.
\<close>

theorem amount_error_kinds:
  "(MsgUndelegate.DelegatorAddress u \<noteq> [] \<and> MsgUndelegate.ValidatorAddress u \<noteq> []
      \<and> Coin.Amount (MsgUndelegate.Amount u) \<le> 0
     \<longrightarrow> MsgUndelegate_ValidateBasic u = Some ErrBadSharesAmount)
   \<and> (MsgBeginRedelegate.DelegatorAddress r \<noteq> [] \<and> ValidatorSrcAddress r \<noteq> []
      \<and> ValidatorDstAddress r \<noteq> [] \<and> Coin.Amount (MsgBeginRedelegate.Amount r) \<le> 0
     \<longrightarrow> MsgBeginRedelegate_ValidateBasic r = Some ErrBadSharesAmount)
   \<and> (MsgDelegate.DelegatorAddress d \<noteq> [] \<and> MsgDelegate.ValidatorAddress d \<noteq> []
      \<and> Coin.Amount (MsgDelegate.Amount d) \<le> 0
     \<longrightarrow> MsgDelegate_ValidateBasic d = Some ErrBadDelegationAmount)
   \<and> (MsgIndexDelegate.DelegatorAddress i \<noteq> [] \<and> Portions i = pre @ p # rest
      \<and> (\<forall>q \<in> set pre. ValidatorPortion.ValidatorAddress q \<noteq> []
                         \<and> 0 < Coin.Amount (ValidatorPortion.Amount q))
      \<and> ValidatorPortion.ValidatorAddress p \<noteq> []
      \<and> Coin.Amount (ValidatorPortion.Amount p) \<le> 0
     \<longrightarrow> MsgIndexDelegate_ValidateBasic i = Some ErrBadDelegationAmount)
   \<and> MsgUndelegate_ValidateBasic u \<noteq> Some ErrBadDelegationAmount
   \<and> MsgBeginRedelegate_ValidateBasic r \<noteq> Some ErrBadDelegationAmount
   \<and> MsgDelegate_ValidateBasic d \<noteq> Some ErrBadSharesAmount
   \<and> MsgIndexDelegate_ValidateBasic i \<noteq> Some ErrBadSharesAmount"
proof -
  have "MsgIndexDelegate_ValidateBasic i \<noteq> Some ErrBadSharesAmount"
    using check_portions_error_kind [of "Portions i" ErrBadSharesAmount]
    by (auto simp: MsgIndexDelegate_ValidateBasic_def)
  moreover have "MsgIndexDelegate_ValidateBasic i = Some ErrBadDelegationAmount"
    if "MsgIndexDelegate.DelegatorAddress i \<noteq> []" "Portions i = pre @ p # rest"
      "\<forall>q \<in> set pre. ValidatorPortion.ValidatorAddress q \<noteq> []
                         \<and> 0 < Coin.Amount (ValidatorPortion.Amount q)"
      "ValidatorPortion.ValidatorAddress p \<noteq> []"
      "Coin.Amount (ValidatorPortion.Amount p) \<le> 0"
    using that check_portions_first_failure [of pre p rest]
    by (simp add: MsgIndexDelegate_ValidateBasic_def Empty_def)
  ultimately show ?thesis
    by (simp add: MsgUndelegate_ValidateBasic_def MsgBeginRedelegate_ValidateBasic_def
        MsgDelegate_ValidateBasic_def sdk_defs)
qed

theorem amount_error_kinds_witness:
  "MsgUndelegate_ValidateBasic (undelegate_msg 0) = Some ErrBadSharesAmount
   \<and> MsgBeginRedelegate_ValidateBasic (redelegate_msg addr1 addr2 (- 3))
       = Some ErrBadSharesAmount
   \<and> MsgDelegate_ValidateBasic (delegate_msg 0) = Some ErrBadDelegationAmount
   \<and> MsgIndexDelegate_ValidateBasic (index_msg addr1 [portion addr1 10, portion addr2 (- 5)])
       = Some ErrBadDelegationAmount"
  using amount_error_kinds [of "undelegate_msg 0" "redelegate_msg addr1 addr2 (- 3)"
      "delegate_msg 0" "index_msg addr1 [portion addr1 10, portion addr2 (- 5)]"
      "[portion addr1 10]" "portion addr2 (- 5)" "[]"]
  by (simp add: input_defs)

subsection \<open>Redelegation to the same validator\<close>

text \<open>
  Claim C10. \<^verbatim>\<open>MsgBeginRedelegate.ValidateBasic\<close> does not ask the source and the
  destination validator to differ: a message with a non-empty delegator address, equal
  non-empty source and destination addresses and a strictly positive amount is accepted.
\<close>

theorem MsgBeginRedelegate_ValidateBasic_same_validator:
  assumes "MsgBeginRedelegate.DelegatorAddress msg \<noteq> []"
    and "ValidatorSrcAddress msg = ValidatorDstAddress msg"
    and "ValidatorSrcAddress msg \<noteq> []"
    and "0 < Coin.Amount (MsgBeginRedelegate.Amount msg)"
  shows "MsgBeginRedelegate_ValidateBasic msg = None"
  using assms by (simp add: MsgBeginRedelegate_ValidateBasic_def sdk_defs)

theorem MsgBeginRedelegate_ValidateBasic_same_validator_witness:
  "MsgBeginRedelegate.DelegatorAddress (redelegate_msg addr2 addr2 5) \<noteq> []
   \<and> ValidatorSrcAddress (redelegate_msg addr2 addr2 5)
       = ValidatorDstAddress (redelegate_msg addr2 addr2 5)
   \<and> ValidatorSrcAddress (redelegate_msg addr2 addr2 5) \<noteq> []
   \<and> 0 < Coin.Amount (MsgBeginRedelegate.Amount (redelegate_msg addr2 addr2 5))
   \<and> MsgBeginRedelegate_ValidateBasic (redelegate_msg addr2 addr2 5) = None"
  using MsgBeginRedelegate_ValidateBasic_same_validator [of "redelegate_msg addr2 addr2 5"]
  by (simp add: input_defs)

subsection \<open>Governance content\<close>

text \<open>
  Claim C7. \<^verbatim>\<open>ValidateAbstract\<close> is a stub: for every codespace and every content it
  returns nil, whatever the content's own methods return; it checks no length.
\<close>

theorem ValidateAbstract_stub: "ValidateAbstract codespace c = None"
  by (simp add: ValidateAbstract_def)

theorem ValidateAbstract_stub_witness:
  "ValidateAbstract ''dao'' some_content = None \<and> length (String some_content) = 6000"
  using ValidateAbstract_stub [of "''dao''" some_content]
  by (simp add: some_content_def)

section \<open>Properties of the JSON transcoding\<close>









section \<open>Properties of the staking ledger\<close>

text \<open>A delegation that succeeds had a positive amount and a validator that exists and
  is eligible; it keeps every validator, with its eligibility, and takes no share away.\<close>

lemma ApplyDelegate_success:
  assumes "ApplyDelegate st del val amount = Inr st'"
  shows "0 < amount \<and> (\<exists>v. validators st val = Some v \<and> eligible v)"
  using assms
  by (auto simp: ApplyDelegate_def split: if_splits option.splits)

lemma ApplyDelegate_validators:
  assumes "ApplyDelegate st del val amount = Inr st'"
  shows "(\<exists>v. validators st val' = Some v \<and> eligible v)
         \<longleftrightarrow> (\<exists>v. validators st' val' = Some v \<and> eligible v)"
  using assms
  by (auto simp: ApplyDelegate_def split: if_splits option.splits)

lemma ApplyDelegate_shares_mono:
  assumes "ApplyDelegate st del val amount = Inr st'"
  shows "sharesOwned st d v \<le> sharesOwned st' d v"
  using assms
  by (auto simp: ApplyDelegate_def sharesOwned_def split: if_splits option.splits)

lemma ApplyDelegate_shares_grow:
  assumes "ApplyDelegate st del val amount = Inr st'"
  shows "sharesOwned st del val < sharesOwned st' del val"
  using assms
  by (auto simp: ApplyDelegate_def sharesOwned_def split: if_splits option.splits)

lemma applyPortions_shares_mono:
  "applyPortions st del ps = Inr st' \<Longrightarrow> sharesOwned st d v \<le> sharesOwned st' d v"
proof (induction ps arbitrary: st)
  case Nil
  then show ?case by simp
next
  case (Cons p ps)
  then obtain st1 where
    1: "ApplyDelegate st del (ValidatorPortion.ValidatorAddress p)
          (Coin.Amount (ValidatorPortion.Amount p)) = Inr st1"
    and 2: "applyPortions st1 del ps = Inr st'"
    by (auto split: sum.splits)
  show ?case
    using ApplyDelegate_shares_mono [OF 1, of d v] Cons.IH [OF 2] by simp
qed

text \<open>When the whole list succeeds, every portion of it was applied: its validator
  existed and was eligible at the start, and the delegator owns more shares of it at
  the end.\<close>

lemma applyPortions_applied:
  "applyPortions st del ps = Inr st' \<Longrightarrow> p \<in> set ps \<Longrightarrow>
    0 < Coin.Amount (ValidatorPortion.Amount p)
    \<and> (\<exists>v. validators st (ValidatorPortion.ValidatorAddress p) = Some v \<and> eligible v)
    \<and> sharesOwned st del (ValidatorPortion.ValidatorAddress p)
        < sharesOwned st' del (ValidatorPortion.ValidatorAddress p)"
proof (induction ps arbitrary: st)
  case Nil
  then show ?case by simp
next
  case (Cons q ps)
  then obtain st1 where
    1: "ApplyDelegate st del (ValidatorPortion.ValidatorAddress q)
          (Coin.Amount (ValidatorPortion.Amount q)) = Inr st1"
    and 2: "applyPortions st1 del ps = Inr st'"
    by (auto split: sum.splits)
  show ?case
  proof (cases "p = q")
    case True
    then show ?thesis
      using ApplyDelegate_success [OF 1] ApplyDelegate_shares_grow [OF 1]
        applyPortions_shares_mono [OF 2, of del "ValidatorPortion.ValidatorAddress q"]
      by auto
  next
    case False
    then have "p \<in> set ps" using Cons.prems by simp
    from Cons.IH [OF 2 this] show ?thesis
      using ApplyDelegate_validators [OF 1, of "ValidatorPortion.ValidatorAddress p"]
        ApplyDelegate_shares_mono [OF 1, of del "ValidatorPortion.ValidatorAddress p"]
      by auto
  qed
qed

text \<open>
  Claim C2. \<open>ApplyIndexDelegate\<close> is all-or-nothing. If it succeeds, every portion was
  applied: each has a positive amount and a validator that exists and is eligible, and
  the delegator's shares at that validator grew. If it fails, the state is the one it
  started from. Applying \<open>[(V1, 10), (V2, -5)]\<close>, where the delegation of 10 to \<open>V1\<close>
  would succeed, returns BadDelegationAmount and leaves the state, and so the
  delegator's shares at \<open>V1\<close>, unchanged.
\<close>

theorem ApplyIndexDelegate_all_or_nothing:
  "(snd (ApplyIndexDelegate st msg) = None \<longrightarrow>
      (\<forall>p \<in> set (Portions msg).
          0 < Coin.Amount (ValidatorPortion.Amount p)
        \<and> (\<exists>v. validators st (ValidatorPortion.ValidatorAddress p) = Some v \<and> eligible v)
        \<and> sharesOwned st (MsgIndexDelegate.DelegatorAddress msg)
              (ValidatorPortion.ValidatorAddress p)
            < sharesOwned (fst (ApplyIndexDelegate st msg))
                (MsgIndexDelegate.DelegatorAddress msg) (ValidatorPortion.ValidatorAddress p)))
   \<and> (snd (ApplyIndexDelegate st msg) \<noteq> None \<longrightarrow> fst (ApplyIndexDelegate st msg) = st)
   \<and> (validators st V1 = Some v1 \<and> eligible v1 \<and> 0 < sharesIssued v1 10
      \<longrightarrow> ApplyIndexDelegate st (index_msg del [portion V1 10, portion V2 (- 5)])
            = (st, Some BadDelegationAmount)
        \<and> sharesOwned
            (fst (ApplyIndexDelegate st (index_msg del [portion V1 10, portion V2 (- 5)])))
            del V1 = sharesOwned st del V1)"
proof (intro conjI impI ballI)
  fix p
  assume ok: "snd (ApplyIndexDelegate st msg) = None" and p: "p \<in> set (Portions msg)"
  from ok obtain st' where
    r: "applyPortions st (MsgIndexDelegate.DelegatorAddress msg) (Portions msg) = Inr st'"
    by (auto simp: ApplyIndexDelegate_def split: sum.splits)
  then have f: "fst (ApplyIndexDelegate st msg) = st'"
    by (simp add: ApplyIndexDelegate_def)
  from applyPortions_applied [OF r p] f
  show "0 < Coin.Amount (ValidatorPortion.Amount p)"
    and "\<exists>v. validators st (ValidatorPortion.ValidatorAddress p) = Some v \<and> eligible v"
    and "sharesOwned st (MsgIndexDelegate.DelegatorAddress msg)
              (ValidatorPortion.ValidatorAddress p)
            < sharesOwned (fst (ApplyIndexDelegate st msg))
                (MsgIndexDelegate.DelegatorAddress msg) (ValidatorPortion.ValidatorAddress p)"
    by simp_all
next
  assume "snd (ApplyIndexDelegate st msg) \<noteq> None"
  then show "fst (ApplyIndexDelegate st msg) = st"
    by (auto simp: ApplyIndexDelegate_def split: sum.splits)
next
  assume h: "validators st V1 = Some v1 \<and> eligible v1 \<and> 0 < sharesIssued v1 10"
  then show e: "ApplyIndexDelegate st (index_msg del [portion V1 10, portion V2 (- 5)])
            = (st, Some BadDelegationAmount)"
    by (simp add: ApplyIndexDelegate_def ApplyDelegate_def index_msg_def portion_def stake_def)
  show "sharesOwned
            (fst (ApplyIndexDelegate st (index_msg del [portion V1 10, portion V2 (- 5)])))
            del V1 = sharesOwned st del V1"
    by (simp add: e)
qed

theorem ApplyIndexDelegate_all_or_nothing_witness:
  "ApplyIndexDelegate two_validators (index_msg addr1 [portion addr1 10, portion addr2 (- 5)])
     = (two_validators, Some BadDelegationAmount)
   \<and> sharesOwned two_validators addr1 addr1 = 100 * 10 ^ 18
   \<and> snd (ApplyIndexDelegate two_validators
            (index_msg addr1 [portion addr1 10, portion addr2 3])) = None
   \<and> sharesOwned two_validators addr1 addr2
       < sharesOwned (fst (ApplyIndexDelegate two_validators
            (index_msg addr1 [portion addr1 10, portion addr2 3]))) addr1 addr2"
proof -
  have v: "validators two_validators addr1
            = Some \<lparr>bondedAmount = 100, totalShares = Dec (100 * 10 ^ 18), eligible = True\<rparr>"
    by (simp add: two_validators_def addr1_def addr2_def)
  have i: "0 < sharesIssued
            \<lparr>bondedAmount = 100, totalShares = Dec (100 * 10 ^ 18), eligible = True\<rparr> 10"
    by (simp add: sharesIssued_def)
  have ok: "snd (ApplyIndexDelegate two_validators
            (index_msg addr1 [portion addr1 10, portion addr2 3])) = None"
    by (simp add: ApplyIndexDelegate_def ApplyDelegate_def sharesIssued_def sharesOwned_def
        two_validators_def input_defs)
  have o: "sharesOwned two_validators addr1 addr1 = 100 * 10 ^ 18"
    by (simp add: sharesOwned_def two_validators_def)
  have p: "Portions (index_msg addr1 [portion addr1 10, portion addr2 3])
            = [portion addr1 10, portion addr2 3]"
    and d: "MsgIndexDelegate.DelegatorAddress
              (index_msg addr1 [portion addr1 10, portion addr2 3]) = addr1"
    and a: "ValidatorPortion.ValidatorAddress (portion addr2 3) = addr2"
    by (simp_all add: index_msg_def portion_def)
  from ApplyIndexDelegate_all_or_nothing
    [of two_validators "index_msg addr1 [portion addr1 10, portion addr2 3]" addr1
        "\<lparr>bondedAmount = 100, totalShares = Dec (100 * 10 ^ 18), eligible = True\<rparr>"
        addr1 addr2]
    v i ok o p d a
  show ?thesis by simp
qed

end
